theory Spec2Isabelle
  imports Complex_Main "HOL-Library.Word"
begin

section \<open>Data model of the audio file player processor\<close>

text \<open>
  The embedding follows \<^verbatim>\<open>Source/PluginProcessor.cpp\<close>. Time stamps, the end time of a
  sequence, the sample rate and \<^verbatim>\<open>nextStartTime\<close> are C++ doubles; they are modelled as
  reals, which agrees with the comparisons of the source on all finite values. The one
  place where the source computes with them, the quotient \<^verbatim>\<open>1.0 / getSampleRate()\<close>, is
  rounded as the source rounds it: see \<open>sampleLength\<close>.
\<close>

type_synonym byte = "8 word"

text \<open>A \<^verbatim>\<open>MidiEventHolder\<close>: the time stamp of its message and the raw bytes of the message.\<close>

record midi_event =
  getTimeStamp :: real
  getRawData :: "byte list"

text \<open>
  Modelled from the spec: the class \<^verbatim>\<open>juce::MidiMessageSequence\<close> is declared outside the
  source file. A track is an ordered sequence of events plus an end time that need not be
  the time stamp of its last event (spec, section 3).
\<close>

record track =
  eventList :: "midi_event list"
  getEndTime :: real

text \<open>The three channel messages that \<^verbatim>\<open>sendAllNotesOff\<close> builds, by the channel they address.\<close>

datatype midi_message =
    allNotesOff int
  | allSoundOff int
  | allControllersOff int

text \<open>The reader that the format manager creates for an audio file.\<close>

record audio_reader =
  readerFile :: string
  readerSampleRate :: real

text \<open>What \<^verbatim>\<open>transportSource.setSource\<close> installs: source, read-ahead size, source sample rate.\<close>

record transport_input =
  inputSource :: audio_reader
  readAheadBufferSize :: nat
  sourceSampleRateToCorrectFor :: real

text \<open>
  Modelled from the spec: the header that declares the members of
  \<^verbatim>\<open>AudioFilePlayerProcessor\<close> is not among the sources. The fields are the members the
  modelled functions read or write; their types follow the Playback State of the
  specification (section 3) and their use in the source file. \<open>lumi\<close> is the pointer to
  the external device: \<open>True\<close> when it is not null.
\<close>

record processor =
  MIDIFile :: "track list"
  numTracks :: int
  currentTrack :: int
  trackHasChanged :: bool
  isPlayingSomething :: bool
  nextStartTime :: real
  lumi :: bool
  transportPlaying :: bool
  transportInput :: "transport_input option"
  currentAudioFileSource :: "audio_reader option"
  currentlyLoadedFile :: string

text \<open>What the host hands to one call of \<^verbatim>\<open>processBlock\<close>, and the outcome of the try-lock.\<close>

record block =
  totalNumInputChannels :: nat
  totalNumOutputChannels :: nat
  numSamples :: nat
  sampleRate :: real
  isLocked :: bool

text \<open>
  The calls a block makes on its collaborators, in call order: clearing an output channel,
  pulling audio from the transport source, the try-lock, \<^verbatim>\<open>midiMessages.addEvent\<close> (message
  and sample position), a call of \<^verbatim>\<open>lumiMIDIEvent\<close> (message and size), and the
  \<^verbatim>\<open>sendMessage\<close> that reaches the device.
\<close>

datatype effect =
    ClearChannel nat
  | GetNextAudioBlock nat
  | TryLock bool
  | AddEvent midi_message int
  | LumiMIDIEvent "byte list" nat
  | SendMessage "byte list" nat

text \<open>Dereferencing the null pointer that \<^verbatim>\<open>getTrack\<close> returns for an index out of range.\<close>

datatype error = NullSequence

section \<open>Operations\<close>

subsection \<open>sendAllNotesOff\<close>

text \<open>The loop \<^verbatim>\<open>for (auto i = 1; i <= 16; i++)\<close> of \<^verbatim>\<open>sendAllNotesOff\<close>, from counter \<open>i\<close> on.\<close>

function sendLoop :: "int \<Rightarrow> effect list" where
  "sendLoop i =
     (if i \<le> 16
      then [AddEvent (allNotesOff i) 0, AddEvent (allSoundOff i) 0,
            AddEvent (allControllersOff i) 0] @ sendLoop (i + 1)
      else [])"
  by pat_completeness auto
termination
  by (relation "measure (\<lambda>i. nat (17 - i))") auto

declare sendLoop.simps [simp del]

definition sendAllNotesOff :: "processor \<Rightarrow> processor \<times> effect list" where
  "sendAllNotesOff s = (s\<lparr>isPlayingSomething := False\<rparr>, sendLoop 1)"

subsection \<open>lumiMIDIEvent\<close>

definition lumiMIDIEvent :: "processor \<Rightarrow> byte list \<Rightarrow> nat \<Rightarrow> effect list" where
  "lumiMIDIEvent s message size' =
     LumiMIDIEvent message size' # (if lumi s then [SendMessage message size'] else [])"

subsection \<open>processBlock\<close>

text \<open>
  \<^verbatim>\<open>MIDIFile.getTrack (index)\<close>: the track at the index, or the null pointer when the index
  is out of range.
\<close>

definition getTrack :: "track list \<Rightarrow> int \<Rightarrow> track option" where
  "getTrack tracks index =
     (if 0 \<le> index \<and> index < int (length tracks) then Some (tracks ! nat index) else None)"

text \<open>
  The quotient \<^verbatim>\<open>1.0 / getSampleRate()\<close> of line 139 is a double: the exact quotient rounded
  to the nearest double, ties to even. \<open>roundToDouble\<close> is this rounding for the 64-bit
  format: 53 significant bits, binades from \<open>-1022\<close> (below it the spacing stays that of
  the subnormal numbers) to 1023, and \<open>None\<close> when the rounded magnitude reaches
  \<open>2 ^ 1024\<close>, where the source has an infinity. \<open>binade x\<close> is the exponent of the power
  of two at or below the magnitude of \<open>x\<close>, found by counting up or down from 0 within
  the range of the format; \<open>ulp x\<close> is the spacing of the doubles there.
\<close>

definition roundHalfEven :: "real \<Rightarrow> int" where
  "roundHalfEven q =
     (let f = \<lfloor>q\<rfloor>
      in if q - of_int f < 1 / 2 then f
         else if q - of_int f > 1 / 2 then f + 1
         else if even f then f else f + 1)"

function binadeUp :: "int \<Rightarrow> real \<Rightarrow> int" where
  "binadeUp e x = (if e < 1024 \<and> 2 powi (e + 1) \<le> x then binadeUp (e + 1) x else e)"
  by pat_completeness auto
termination
  by (relation "measure (\<lambda>(e, x). nat (1024 - e))") auto

function binadeDown :: "int \<Rightarrow> real \<Rightarrow> int" where
  "binadeDown e x = (if - 1022 < e \<and> x < 2 powi e then binadeDown (e - 1) x else e)"
  by pat_completeness auto
termination
  by (relation "measure (\<lambda>(e, x). nat (e + 1022))") auto

declare binadeUp.simps [simp del] binadeDown.simps [simp del]

definition binade :: "real \<Rightarrow> int" where
  "binade x = (if 1 \<le> \<bar>x\<bar> then binadeUp 0 \<bar>x\<bar> else binadeDown 0 \<bar>x\<bar>)"

definition ulp :: "real \<Rightarrow> real" where
  "ulp x = 2 powi (binade x - 52)"

definition roundToDouble :: "real \<Rightarrow> real option" where
  "roundToDouble x =
     (let r = of_int (roundHalfEven (x / ulp x)) * ulp x
      in if \<bar>r\<bar> < 2 ^ 1024 then Some r else None)"

text \<open>
  \<^verbatim>\<open>sampleLength = 1.0 / getSampleRate()\<close>: \<open>None\<close> is an infinite sample length, for a
  sample rate of zero or a quotient that overflows.
\<close>

definition sampleLength :: "real \<Rightarrow> real option" where
  "sampleLength rate = (if rate = 0 then None else roundToDouble (1 / rate))"

text \<open>
  The condition of line 142,
  \<^verbatim>\<open>std::abs(startTime - nextStartTime) > sampleLength && nextStartTime > 0.0\<close>. Nothing
  exceeds an infinite sample length of a sample rate that is not negative, and everything
  exceeds the one of a negative sample rate. The source calls it with the start time 0,
  for which the difference is exact.
\<close>

definition transportMoved :: "real \<Rightarrow> real \<Rightarrow> real \<Rightarrow> bool" where
  "transportMoved rate startTime nextStart =
     ((case sampleLength rate of
         Some l \<Rightarrow> \<bar>startTime - nextStart\<bar> > l
       | None \<Rightarrow> rate < 0)
      \<and> nextStart > 0)"

text \<open>The loop over the events of the sequence (lines 163 to 176).\<close>

fun forEvents :: "real \<Rightarrow> real \<Rightarrow> midi_event list \<Rightarrow> processor \<Rightarrow> processor \<times> effect list" where
  "forEvents startTime endTime [] s = (s, [])"
| "forEvents startTime endTime (event # rest) s =
     (if getTimeStamp event \<ge> startTime \<and> getTimeStamp event < endTime
      then
        let calls = lumiMIDIEvent s (getRawData event) (length (getRawData event));
            (s', t) = forEvents startTime endTime rest (s\<lparr>isPlayingSomething := True\<rparr>)
        in (s', calls @ t)
      else forEvents startTime endTime rest s)"

text \<open>The body of \<^verbatim>\<open>if (numTracks.load() > 0)\<close> for a sequence that is not null (lines 137 to 178).\<close>

definition playSequence :: "real \<Rightarrow> track \<Rightarrow> processor \<Rightarrow> processor \<times> effect list" where
  "playSequence rate theSequence s =
     (let startTime = 0;
          endTime = getEndTime theSequence;
          (s1, t1) = (if transportMoved rate startTime (nextStartTime s)
                      then sendAllNotesOff s else (s, []));
          s2 = s1\<lparr>nextStartTime := endTime\<rparr>
      in if isPlayingSomething s2 \<and> startTime \<ge> getEndTime theSequence
         then let (s3, t3) = sendAllNotesOff s2 in (s3, t1 @ t3)
         else
           let (s3, t3) = (if trackHasChanged s2
                           then sendAllNotesOff (s2\<lparr>trackHasChanged := False\<rparr>)
                           else (s2, []));
               (s4, t4) = forEvents startTime endTime (eventList theSequence) s3
           in (s4, t1 @ t3 @ t4))"

text \<open>What every block does before it looks at the lock (lines 124 to 129).\<close>

definition blockPrologue :: "block \<Rightarrow> effect list" where
  "blockPrologue b =
     map ClearChannel [totalNumInputChannels b ..< totalNumOutputChannels b]
     @ [GetNextAudioBlock (numSamples b), TryLock (isLocked b)]"

definition processBlock :: "block \<Rightarrow> processor \<Rightarrow> (error + processor) \<times> effect list" where
  "processBlock b s =
     (if isLocked b
      then
        if numTracks s > 0
        then
          (case getTrack (MIDIFile s) (currentTrack s) of
             None \<Rightarrow> (Inl NullSequence, blockPrologue b)
           | Some theSequence \<Rightarrow>
               let (s', t) = playSequence (sampleRate b) theSequence s
               in (Inr s', blockPrologue b @ t))
        else (Inr s, blockPrologue b)
      else
        if isPlayingSomething s
        then let (s', t) = sendAllNotesOff s in (Inr s', blockPrologue b @ t)
        else (Inr s, blockPrologue b))"

subsection \<open>loadMIDIFile\<close>

text \<open>
  \<^verbatim>\<open>MIDIFile.convertTimestampTicksToSeconds()\<close> rewrites every time stamp of the file and
  nothing else. The conversion depends on the tempo events of the whole file, so it is a
  parameter that takes the tracks.
\<close>

definition convertTimestampTicksToSeconds ::
    "(track list \<Rightarrow> real \<Rightarrow> real) \<Rightarrow> track list \<Rightarrow> track list" where
  "convertTimestampTicksToSeconds ticksToSeconds tracks =
     map (\<lambda>t. \<lparr>eventList =
                  map (\<lambda>e. e\<lparr>getTimeStamp := ticksToSeconds tracks (getTimeStamp e)\<rparr>)
                    (eventList t),
                getEndTime = ticksToSeconds tracks (getEndTime t)\<rparr>) tracks"

text \<open>
  \<open>readFrom\<close> stands for opening the stream and \<^verbatim>\<open>MIDIFile.readFrom (stream)\<close>: whether
  the parse succeeded, and the tracks the file object holds afterwards. The source drops
  the boolean.
\<close>

definition loadMIDIFile ::
    "(string \<Rightarrow> bool \<times> track list) \<Rightarrow> (track list \<Rightarrow> real \<Rightarrow> real) \<Rightarrow> string \<Rightarrow>
     processor \<Rightarrow> processor" where
  "loadMIDIFile readFrom ticksToSeconds file s =
     (let s1 = s\<lparr>MIDIFile := []\<rparr>;
          (ok, tracks) = readFrom file;
          s2 = s1\<lparr>MIDIFile := tracks\<rparr>;
          s3 = s2\<lparr>MIDIFile := convertTimestampTicksToSeconds ticksToSeconds (MIDIFile s2)\<rparr>;
          s4 = s3\<lparr>numTracks := int (length (MIDIFile s3))\<rparr>;
          s5 = s4\<lparr>currentTrack := 0\<rparr>
      in s5\<lparr>trackHasChanged := False\<rparr>)"

subsection \<open>loadAudioFileIntoTransport\<close>

definition loadAudioFileIntoTransport ::
    "(string \<Rightarrow> audio_reader option) \<Rightarrow> string \<Rightarrow> processor \<Rightarrow> processor" where
  "loadAudioFileIntoTransport createReaderFor audioFile s =
     (let s1 = s\<lparr>transportPlaying := False\<rparr>;
          s2 = s1\<lparr>transportInput := None\<rparr>;
          s3 = s2\<lparr>currentAudioFileSource := None\<rparr>;
          reader = createReaderFor audioFile;
          s4 = s3\<lparr>currentlyLoadedFile := audioFile\<rparr>
      in case reader of
           None \<Rightarrow> s4
         | Some r \<Rightarrow>
             let s5 = s4\<lparr>currentAudioFileSource := Some r\<rparr>
             in s5\<lparr>transportInput :=
                    Some \<lparr>inputSource = r, readAheadBufferSize = 32768,
                          sourceSampleRateToCorrectFor = readerSampleRate r\<rparr>\<rparr>)"

section \<open>Vocabulary of the specification\<close>

text \<open>
  The Safety Flush as the specification words it (section 4.4): for each of the 16 channels,
  channel 1 first, "all notes off", "all sound off", "all controllers off", each added at
  sample position 0.
\<close>

definition safetyFlush :: "effect list" where
  "safetyFlush =
     concat (map (\<lambda>channel. [AddEvent (allNotesOff channel) 0, AddEvent (allSoundOff channel) 0,
                               AddEvent (allControllersOff channel) 0]) [1..16])"

text \<open>The events a trace forwards: the calls of \<^verbatim>\<open>lumiMIDIEvent\<close>, in call order.\<close>

fun forwarded :: "effect list \<Rightarrow> (byte list \<times> nat) list" where
  "forwarded [] = []"
| "forwarded (LumiMIDIEvent m n # t) = (m, n) # forwarded t"
| "forwarded (_ # t) = forwarded t"

text \<open>The messages that reach the device: the calls of \<^verbatim>\<open>sendMessage\<close>, in call order.\<close>

fun delivered :: "effect list \<Rightarrow> (byte list \<times> nat) list" where
  "delivered [] = []"
| "delivered (SendMessage m n # t) = (m, n) # delivered t"
| "delivered (_ # t) = delivered t"

text \<open>The effects that concern MIDI: everything but the block prologue.\<close>

fun midiOnly :: "effect \<Rightarrow> bool" where
  "midiOnly (AddEvent m p) = True"
| "midiOnly (LumiMIDIEvent m n) = True"
| "midiOnly (SendMessage m n) = True"
| "midiOnly e = False"

text \<open>The half-open window of the specification, and what is handed over for an event.\<close>

definition inWindow :: "real \<Rightarrow> real \<Rightarrow> midi_event \<Rightarrow> bool" where
  "inWindow windowStart windowEnd event =
     (windowStart \<le> getTimeStamp event \<and> getTimeStamp event < windowEnd)"

definition payload :: "midi_event \<Rightarrow> byte list \<times> nat" where
  "payload event = (getRawData event, length (getRawData event))"

text \<open>The events of a sequence inside the window the dispatcher uses, from 0 to its end time.\<close>

definition scanned :: "track \<Rightarrow> midi_event list" where
  "scanned theSequence = filter (inWindow 0 (getEndTime theSequence)) (eventList theSequence)"

text \<open>
  The end-of-timeline branch (line 148) is taken: the processor is still playing after the
  transport check, and the window start 0 is not before the end time of the sequence.
\<close>

definition endOfSequence :: "real \<Rightarrow> track \<Rightarrow> processor \<Rightarrow> bool" where
  "endOfSequence rate theSequence s =
     ((isPlayingSomething s \<and> \<not> transportMoved rate 0 (nextStartTime s))
      \<and> 0 \<ge> getEndTime theSequence)"

section \<open>Example inputs\<close>

text \<open>
  The example of the specification: one track, three events at 0.0, 0.5 and 1.2 seconds
  (a note on, its note off, the end-of-track meta event), end time 1.2.
\<close>

definition exampleTrack :: track where
  "exampleTrack =
     \<lparr>eventList =
        [\<lparr>getTimeStamp = 0, getRawData = [0x90, 60, 100]\<rparr>,
         \<lparr>getTimeStamp = 0.5, getRawData = [0x80, 60, 0]\<rparr>,
         \<lparr>getTimeStamp = 1.2, getRawData = [0xFF, 0x2F, 0]\<rparr>],
      getEndTime = 1.2\<rparr>"

definition exampleProcessor :: processor where
  "exampleProcessor =
     \<lparr>MIDIFile = [exampleTrack], numTracks = 1, currentTrack = 0, trackHasChanged = False,
      isPlayingSomething = False, nextStartTime = 0, lumi = True, transportPlaying = False,
      transportInput = None, currentAudioFileSource = None, currentlyLoadedFile = []\<rparr>"

definition exampleBlock :: block where
  "exampleBlock =
     \<lparr>totalNumInputChannels = 0, totalNumOutputChannels = 2, numSamples = 512,
      sampleRate = 44100, isLocked = True\<rparr>"

text \<open>
  The example processor after one block (playing, window end recorded), the same after a
  track switch, and a block whose try-lock fails.
\<close>

definition playingProcessor :: processor where
  "playingProcessor =
     \<lparr>MIDIFile = [exampleTrack], numTracks = 1, currentTrack = 0, trackHasChanged = False,
      isPlayingSomething = True, nextStartTime = 1.2, lumi = True, transportPlaying = False,
      transportInput = None, currentAudioFileSource = None, currentlyLoadedFile = []\<rparr>"

definition switchedProcessor :: processor where
  "switchedProcessor =
     \<lparr>MIDIFile = [exampleTrack], numTracks = 1, currentTrack = 0, trackHasChanged = True,
      isPlayingSomething = True, nextStartTime = 1.2, lumi = True, transportPlaying = False,
      transportInput = None, currentAudioFileSource = None, currentlyLoadedFile = []\<rparr>"

definition contendedBlock :: block where
  "contendedBlock =
     \<lparr>totalNumInputChannels = 0, totalNumOutputChannels = 2, numSamples = 512,
      sampleRate = 44100, isLocked = False\<rparr>"

definition exampleCalls :: "effect list" where
  "exampleCalls =
     [LumiMIDIEvent [0x90, 60, 100] 3, SendMessage [0x90, 60, 100] 3,
      LumiMIDIEvent [0x80, 60, 0] 3, SendMessage [0x80, 60, 0] 3]"

text \<open>
  A file that parses to the example track, with time stamps in ticks (960 ticks to the
  second), every other file failing with nothing parsed; and a format manager that knows
  one audio file.
\<close>

definition ticksTrack :: track where
  "ticksTrack =
     \<lparr>eventList =
        [\<lparr>getTimeStamp = 0, getRawData = [0x90, 60, 100]\<rparr>,
         \<lparr>getTimeStamp = 480, getRawData = [0x80, 60, 0]\<rparr>,
         \<lparr>getTimeStamp = 1152, getRawData = [0xFF, 0x2F, 0]\<rparr>],
      getEndTime = 1152\<rparr>"

definition exampleReadFrom :: "string \<Rightarrow> bool \<times> track list" where
  "exampleReadFrom file = (if file = ''song.mid'' then (True, [ticksTrack]) else (False, []))"

definition exampleTicksToSeconds :: "track list \<Rightarrow> real \<Rightarrow> real" where
  "exampleTicksToSeconds tracks ticks = ticks / 960"

definition exampleCreateReaderFor :: "string \<Rightarrow> audio_reader option" where
  "exampleCreateReaderFor file =
     (if file = ''song.wav'' then Some \<lparr>readerFile = ''song.wav'', readerSampleRate = 48000\<rparr>
      else None)"

definition installedProcessor :: processor where
  "installedProcessor =
     \<lparr>MIDIFile = [exampleTrack], numTracks = 1, currentTrack = 0, trackHasChanged = False,
      isPlayingSomething = False, nextStartTime = 0, lumi = True, transportPlaying = True,
      transportInput =
        Some \<lparr>inputSource = \<lparr>readerFile = ''song.wav'', readerSampleRate = 48000\<rparr>,
              readAheadBufferSize = 32768, sourceSampleRateToCorrectFor = 48000\<rparr>,
      currentAudioFileSource = Some \<lparr>readerFile = ''song.wav'', readerSampleRate = 48000\<rparr>,
      currentlyLoadedFile = ''song.wav''\<rparr>"

text \<open>
  A track whose only event, and end, is at the double nearest to one sample period at
  44100 Hz, and a processor that has recorded this end as its last window end.
\<close>

definition shortTrack :: track where
  "shortTrack =
     \<lparr>eventList =
        [\<lparr>getTimeStamp = 6692696262570359 / 2 ^ 68, getRawData = [0xFF, 0x2F, 0]\<rparr>],
      getEndTime = 6692696262570359 / 2 ^ 68\<rparr>"

definition shortProcessor :: processor where
  "shortProcessor =
     \<lparr>MIDIFile = [shortTrack], numTracks = 1, currentTrack = 0, trackHasChanged = False,
      isPlayingSomething = False, nextStartTime = 6692696262570359 / 2 ^ 68, lumi = True,
      transportPlaying = False, transportInput = None, currentAudioFileSource = None,
      currentlyLoadedFile = []\<rparr>"

definition succeedingReadFrom :: "string \<Rightarrow> bool \<times> track list" where
  "succeedingReadFrom midiFile = (True, [])"

section \<open>Lemmas about the rounded sample length\<close>

lemma roundHalfEven_le: "roundHalfEven q \<le> \<lfloor>q\<rfloor> + 1"
  by (simp add: roundHalfEven_def Let_def)

lemma roundHalfEven_nonneg: "0 \<le> q \<Longrightarrow> 0 \<le> roundHalfEven q"
  by (simp add: roundHalfEven_def Let_def)

lemma ulp_pos: "0 < ulp x"
  by (simp add: ulp_def)

lemma binadeDown_le: "binadeDown e x \<le> e"
proof (induction e x rule: binadeDown.induct)
  case (1 e x)
  show ?case
  proof (cases "- 1022 < e \<and> x < 2 powi e")
    case True
    with "1.IH" have "binadeDown (e - 1) x \<le> e - 1" by simp
    with True show ?thesis by (subst binadeDown.simps) simp
  next
    case False
    then show ?thesis by (subst binadeDown.simps) auto
  qed
qed

lemma binadeDown_upper: "x < 2 powi (e + 1) \<Longrightarrow> x < 2 powi (binadeDown e x + 1)"
proof (induction e x rule: binadeDown.induct)
  case (1 e x)
  show ?case
  proof (cases "- 1022 < e \<and> x < 2 powi e")
    case True
    with "1.IH" have "x < 2 powi (binadeDown (e - 1) x + 1)" by simp
    with True show ?thesis by (subst binadeDown.simps) simp
  next
    case False
    with "1.prems" show ?thesis by (subst binadeDown.simps) auto
  qed
qed

lemma binade_small:
  assumes "\<bar>x\<bar> < 1"
  shows "binade x \<le> - 1" and "\<bar>x\<bar> < 2 powi (binade x + 1)"
proof -
  from assms have b: "binade x = binadeDown (- 1) \<bar>x\<bar>"
    by (simp add: binade_def) (subst binadeDown.simps, simp)
  show "binade x \<le> - 1"
    unfolding b by (rule binadeDown_le)
  from assms have "\<bar>x\<bar> < 2 powi (- 1 + 1)" by simp
  then show "\<bar>x\<bar> < 2 powi (binade x + 1)"
    unfolding b by (rule binadeDown_upper)
qed

lemma roundToDouble_small:
  assumes "0 < x" and "x < 1"
  shows "\<exists>l. roundToDouble x = Some l \<and> 0 \<le> l \<and> l \<le> 1"
proof -
  let ?u = "ulp x"
  let ?q = "x / ?u"
  let ?r = "of_int (roundHalfEven ?q) * ?u"
  from assms have a: "\<bar>x\<bar> < 1" and ax: "\<bar>x\<bar> = x" by simp_all
  have u: "0 < ?u" by (rule ulp_pos)
  have "(2::real) powi ((binade x - 52) + 53) = 2 powi (binade x - 52) * 2 powi 53"
    by (rule power_int_add) simp
  then have e: "2 powi (binade x + 1) = ?u * 2 ^ 53"
    by (simp add: ulp_def add.commute)
  with binade_small(2) [OF a] ax have "x < ?u * 2 ^ 53"
    by simp
  with u have q: "?q < 2 ^ 53"
    by (simp add: pos_divide_less_eq mult.commute)
  from assms u have q0: "0 \<le> ?q" by simp
  have "\<lfloor>?q\<rfloor> < 2 ^ 53"
    using q by (simp add: floor_less_iff)
  with roundHalfEven_le [of ?q] have "roundHalfEven ?q \<le> 2 ^ 53" by linarith
  then have "real_of_int (roundHalfEven ?q) \<le> 2 ^ 53"
    by (metis of_int_le_iff of_int_numeral of_int_power)
  with u have "?r \<le> 2 ^ 53 * ?u" by simp
  also have "\<dots> = 2 powi (binade x + 1)"
    using e by simp
  also have "\<dots> \<le> 2 powi 0"
    using binade_small(1) [OF a] by (intro power_int_increasing) simp_all
  finally have r1: "?r \<le> 1" by simp
  from roundHalfEven_nonneg [OF q0] u have r0: "0 \<le> ?r" by simp
  from r0 r1 have "\<bar>?r\<bar> < 2 ^ 1024" by simp
  with r0 r1 show ?thesis by (simp add: roundToDouble_def Let_def)
qed

lemma roundToDouble_nonneg:
  assumes "0 \<le> x" and "roundToDouble x = Some l"
  shows "0 \<le> l"
proof -
  from assms(1) ulp_pos [of x] have "0 \<le> x / ulp x" by simp
  from roundHalfEven_nonneg [OF this] ulp_pos [of x]
  have "0 \<le> of_int (roundHalfEven (x / ulp x)) * ulp x" by simp
  with assms(2) show ?thesis
    by (simp add: roundToDouble_def Let_def split: if_splits)
qed

lemma transportMoved_zero:
  assumes "0 < rate"
  shows "transportMoved rate 0 n = (case sampleLength rate of Some l \<Rightarrow> l < n | None \<Rightarrow> False)"
proof (cases "sampleLength rate")
  case None
  with assms show ?thesis by (simp add: transportMoved_def)
next
  case (Some l)
  with assms have "roundToDouble (1 / rate) = Some l"
    by (simp add: sampleLength_def)
  with assms have "0 \<le> l" by (intro roundToDouble_nonneg [of "1 / rate" l]) simp_all
  with Some show ?thesis by (auto simp add: transportMoved_def)
qed

lemma transportMoved_long:
  assumes "1 < rate" and "1 < n"
  shows "transportMoved rate 0 n"
proof -
  from assms(1) have "0 < 1 / rate" "1 / rate < 1" by simp_all
  from roundToDouble_small [OF this] obtain l
    where "roundToDouble (1 / rate) = Some l" and "l \<le> 1" by blast
  with assms show ?thesis
    by (simp add: transportMoved_zero sampleLength_def)
qed

lemma transportMoved_not_positive: "n \<le> 0 \<Longrightarrow> \<not> transportMoved rate startTime n"
  by (simp add: transportMoved_def)

lemma binade_44100: "binade (1 / 44100) = - 16"
  by (simp add: binade_def binadeDown.simps)

lemma sampleLength_44100: "sampleLength 44100 = Some (6692696262570359 / 2 ^ 68)"
proof -
  have u: "ulp (1 / 44100) = 1 / 2 ^ 68"
    by (simp add: ulp_def binade_44100 power_int_minus_divide)
  have f: "\<lfloor>(2 ^ 68 / 44100 :: real)\<rfloor> = 6692696262570358"
    by (rule floor_unique) simp_all
  have "roundHalfEven (2 ^ 68 / 44100) = 6692696262570359"
    unfolding roundHalfEven_def f by (simp add: Let_def)
  then show ?thesis
    by (simp add: sampleLength_def roundToDouble_def u Let_def)
qed

section \<open>Lemmas about the operations\<close>

lemma sendLoop_flush: "sendLoop 1 = safetyFlush"
  by (simp add: safetyFlush_def sendLoop.simps upto_rec1)

lemma length_safetyFlush: "length safetyFlush = 48"
  by (simp add: safetyFlush_def upto_rec1)

lemma forwarded_append [simp]: "forwarded (xs @ ys) = forwarded xs @ forwarded ys"
  by (induction xs rule: forwarded.induct) simp_all

lemma delivered_append [simp]: "delivered (xs @ ys) = delivered xs @ delivered ys"
  by (induction xs rule: delivered.induct) simp_all

lemma forwarded_sendLoop [simp]: "forwarded (sendLoop i) = []"
  by (induction i rule: sendLoop.induct) (subst sendLoop.simps, simp)

lemma delivered_sendLoop [simp]: "delivered (sendLoop i) = []"
  by (induction i rule: sendLoop.induct) (subst sendLoop.simps, simp)

lemma lumiMIDIEvent_playing [simp]:
  "lumiMIDIEvent (s\<lparr>isPlayingSomething := p\<rparr>) m n = lumiMIDIEvent s m n"
  by (simp add: lumiMIDIEvent_def)

lemma forEvents_trace:
  "snd (forEvents a e evs s) =
     concat (map (\<lambda>ev. lumiMIDIEvent s (getRawData ev) (length (getRawData ev)))
       (filter (inWindow a e) evs))"
proof (induction evs arbitrary: s)
  case Nil
  show ?case by simp
next
  case (Cons ev evs)
  show ?case
    using Cons.IH [of s] Cons.IH [of "s\<lparr>isPlayingSomething := True\<rparr>"]
    by (simp add: inWindow_def case_prod_beta)
qed

lemma forEvents_state:
  "fst (forEvents a e evs s) =
     (if filter (inWindow a e) evs = [] then s else s\<lparr>isPlayingSomething := True\<rparr>)"
proof (induction evs arbitrary: s)
  case Nil
  show ?case by simp
next
  case (Cons ev evs)
  show ?case
    using Cons.IH [of s] Cons.IH [of "s\<lparr>isPlayingSomething := True\<rparr>"]
    by (simp add: inWindow_def case_prod_beta)
qed

lemma processBlock_locked:
  assumes "isLocked b" and "numTracks s > 0"
    and "getTrack (MIDIFile s) (currentTrack s) = Some theSequence"
  shows "processBlock b s =
           (Inr (fst (playSequence (sampleRate b) theSequence s)),
            blockPrologue b @ snd (playSequence (sampleRate b) theSequence s))"
  using assms by (simp add: processBlock_def case_prod_beta)

lemma playSequence_end:
  assumes "endOfSequence rate theSequence s"
  shows "playSequence rate theSequence s =
           (s\<lparr>isPlayingSomething := False, nextStartTime := getEndTime theSequence\<rparr>, safetyFlush)"
  using assms
  by (simp add: playSequence_def endOfSequence_def sendAllNotesOff_def sendLoop_flush)

lemma playSequence_scan:
  assumes "\<not> endOfSequence rate theSequence s"
  shows "playSequence rate theSequence s =
           (let moved = transportMoved rate 0 (nextStartTime s);
                s3 = s\<lparr>trackHasChanged := False,
                       isPlayingSomething :=
                         isPlayingSomething s \<and> \<not> moved \<and> \<not> trackHasChanged s,
                       nextStartTime := getEndTime theSequence\<rparr>
            in (if scanned theSequence = [] then s3 else s3\<lparr>isPlayingSomething := True\<rparr>,
                (if moved then safetyFlush else [])
                @ (if trackHasChanged s then safetyFlush else [])
                @ concat (map (\<lambda>ev. lumiMIDIEvent s (getRawData ev) (length (getRawData ev)))
                    (scanned theSequence))))"
  using assms
  by (auto simp add: playSequence_def endOfSequence_def sendAllNotesOff_def sendLoop_flush
      case_prod_beta forEvents_trace forEvents_state scanned_def Let_def lumiMIDIEvent_def)

lemma forwarded_safetyFlush [simp]: "forwarded safetyFlush = []"
  using forwarded_sendLoop [of 1] by (simp add: sendLoop_flush)

lemma delivered_safetyFlush [simp]: "delivered safetyFlush = []"
  using delivered_sendLoop [of 1] by (simp add: sendLoop_flush)

lemma forwarded_blockPrologue [simp]: "forwarded (blockPrologue b) = []"
proof -
  have "forwarded (map ClearChannel ns) = []" for ns
    by (induction ns) simp_all
  then show ?thesis by (simp add: blockPrologue_def)
qed

lemma delivered_blockPrologue [simp]: "delivered (blockPrologue b) = []"
proof -
  have "delivered (map ClearChannel ns) = []" for ns
    by (induction ns) simp_all
  then show ?thesis by (simp add: blockPrologue_def)
qed

lemma forwarded_calls [simp]:
  "forwarded (concat (map (\<lambda>ev. lumiMIDIEvent s (getRawData ev) (length (getRawData ev))) evs))
     = map payload evs"
  by (induction evs) (simp_all add: lumiMIDIEvent_def payload_def)

lemma delivered_calls [simp]:
  "delivered (concat (map (\<lambda>ev. lumiMIDIEvent s (getRawData ev) (length (getRawData ev))) evs))
     = (if lumi s then map payload evs else [])"
  by (induction evs) (simp_all add: lumiMIDIEvent_def payload_def)

lemma scanned_end: "getEndTime theSequence \<le> 0 \<Longrightarrow> scanned theSequence = []"
  by (simp add: scanned_def inWindow_def filter_empty_conv)

lemma getTrack_example:
  "getTrack (MIDIFile exampleProcessor) (currentTrack exampleProcessor) = Some exampleTrack"
  by (simp add: getTrack_def exampleProcessor_def)

lemma scanned_example:
  "scanned exampleTrack =
     [\<lparr>getTimeStamp = 0, getRawData = [0x90, 60, 100]\<rparr>,
      \<lparr>getTimeStamp = 0.5, getRawData = [0x80, 60, 0]\<rparr>]"
  by (simp add: scanned_def exampleTrack_def inWindow_def)

lemma midiOnly_sendLoop: "list_all midiOnly (sendLoop i)"
  by (induction i rule: sendLoop.induct) (subst sendLoop.simps, simp)

lemma midiOnly_safetyFlush: "list_all midiOnly safetyFlush"
  using midiOnly_sendLoop [of 1] by (simp add: sendLoop_flush)

lemma midiOnly_calls:
  "list_all midiOnly
     (concat (map (\<lambda>ev. lumiMIDIEvent s (getRawData ev) (length (getRawData ev))) evs))"
  by (induction evs) (simp_all add: lumiMIDIEvent_def)

lemma midiOnly_playSequence: "list_all midiOnly (snd (playSequence rate theSequence s))"
proof (cases "endOfSequence rate theSequence s")
  case True
  then show ?thesis by (simp add: playSequence_end midiOnly_safetyFlush)
next
  case False
  then show ?thesis
    by (simp add: playSequence_scan Let_def midiOnly_safetyFlush midiOnly_calls)
qed

lemma processBlock_prologue:
  "\<exists>rest. snd (processBlock b s) = blockPrologue b @ rest \<and> list_all midiOnly rest"
proof (cases "isLocked b \<and> numTracks s > 0")
  case True
  show ?thesis
  proof (cases "getTrack (MIDIFile s) (currentTrack s)")
    case None
    with True show ?thesis by (simp add: processBlock_def)
  next
    case (Some theSequence)
    with True show ?thesis
      by (simp add: processBlock_locked midiOnly_playSequence)
  qed
next
  case False
  then show ?thesis
    by (auto simp add: processBlock_def sendAllNotesOff_def sendLoop_flush midiOnly_safetyFlush)
qed

lemma blockPrologue_example:
  "blockPrologue exampleBlock
     = [ClearChannel 0, ClearChannel 1, GetNextAudioBlock 512, TryLock True]"
  by (simp add: blockPrologue_def exampleBlock_def upt_rec)

lemma blockPrologue_contended:
  "blockPrologue contendedBlock
     = [ClearChannel 0, ClearChannel 1, GetNextAudioBlock 512, TryLock False]"
  by (simp add: blockPrologue_def contendedBlock_def upt_rec)

lemma calls_example:
  "lumi s \<Longrightarrow>
   concat (map (\<lambda>ev. lumiMIDIEvent s (getRawData ev) (length (getRawData ev)))
     (scanned exampleTrack)) = exampleCalls"
  by (simp add: scanned_example lumiMIDIEvent_def exampleCalls_def)

lemma not_end_example: "\<not> endOfSequence rate exampleTrack s"
  by (simp add: endOfSequence_def exampleTrack_def)

lemma first_block:
  "processBlock exampleBlock exampleProcessor
     = (Inr playingProcessor, blockPrologue exampleBlock @ exampleCalls)"
proof -
  have l: "lumi exampleProcessor" by (simp add: exampleProcessor_def)
  have "playSequence (sampleRate exampleBlock) exampleTrack exampleProcessor
          = (playingProcessor, exampleCalls)"
    unfolding playSequence_scan [OF not_end_example] calls_example [OF l]
    by (simp add: scanned_example)
      (simp add: exampleProcessor_def playingProcessor_def exampleTrack_def
         transportMoved_not_positive)
  moreover have "isLocked exampleBlock" "numTracks exampleProcessor > 0"
    by (simp_all add: exampleBlock_def exampleProcessor_def)
  ultimately show ?thesis
    using getTrack_example by (simp add: processBlock_locked)
qed

lemma getTrack_playing:
  "getTrack (MIDIFile playingProcessor) (currentTrack playingProcessor) = Some exampleTrack"
  by (simp add: getTrack_def playingProcessor_def)

lemma getTrack_switched:
  "getTrack (MIDIFile switchedProcessor) (currentTrack switchedProcessor) = Some exampleTrack"
  by (simp add: getTrack_def switchedProcessor_def)

lemma second_block:
  "processBlock exampleBlock playingProcessor
     = (Inr playingProcessor, blockPrologue exampleBlock @ safetyFlush @ exampleCalls)"
proof -
  have l: "lumi playingProcessor" by (simp add: playingProcessor_def)
  have "playSequence (sampleRate exampleBlock) exampleTrack playingProcessor
          = (playingProcessor, safetyFlush @ exampleCalls)"
    unfolding playSequence_scan [OF not_end_example] calls_example [OF l]
    by (simp add: scanned_example)
      (simp add: exampleBlock_def playingProcessor_def exampleTrack_def
         transportMoved_long)
  moreover have "isLocked exampleBlock" "numTracks playingProcessor > 0"
    by (simp_all add: exampleBlock_def playingProcessor_def)
  ultimately show ?thesis
    using getTrack_playing by (simp add: processBlock_locked)
qed

lemma getTrack_short:
  "getTrack (MIDIFile shortProcessor) (currentTrack shortProcessor) = Some shortTrack"
  by (simp add: getTrack_def shortProcessor_def)

lemma not_moved_short:
  "\<not> transportMoved 44100 0 (6692696262570359 / 2 ^ 68)"
  by (simp add: transportMoved_zero sampleLength_44100)

lemma short_block:
  "processBlock exampleBlock shortProcessor = (Inr shortProcessor, blockPrologue exampleBlock)"
proof -
  have n: "\<not> endOfSequence (sampleRate exampleBlock) shortTrack shortProcessor"
    by (simp add: endOfSequence_def shortProcessor_def)
  have e: "scanned shortTrack = []"
    by (simp add: scanned_def shortTrack_def inWindow_def)
  have m: "\<not> transportMoved (sampleRate exampleBlock) 0 (nextStartTime shortProcessor)"
    using not_moved_short by (simp add: exampleBlock_def shortProcessor_def)
  have "playSequence (sampleRate exampleBlock) shortTrack shortProcessor
          = (shortProcessor, [])"
    unfolding playSequence_scan [OF n] e using m
    by (simp add: Let_def) (simp add: shortProcessor_def shortTrack_def)
  moreover have "isLocked exampleBlock" "numTracks shortProcessor > 0"
    by (simp_all add: exampleBlock_def shortProcessor_def)
  ultimately show ?thesis
    using getTrack_short by (simp add: processBlock_locked)
qed

lemma convert_example:
  "convertTimestampTicksToSeconds exampleTicksToSeconds [ticksTrack] = [exampleTrack]"
  by (simp add: convertTimestampTicksToSeconds_def exampleTicksToSeconds_def ticksTrack_def
      exampleTrack_def)

lemma loadMIDIFile_eq:
  "loadMIDIFile readFrom ticksToSeconds file s =
     s\<lparr>MIDIFile := convertTimestampTicksToSeconds ticksToSeconds (snd (readFrom file)),
       numTracks := int (length (snd (readFrom file))),
       currentTrack := 0, trackHasChanged := False\<rparr>"
  by (simp add: loadMIDIFile_def case_prod_beta convertTimestampTicksToSeconds_def)

lemma loadAudio_None:
  "createReaderFor audioFile = None \<Longrightarrow>
   loadAudioFileIntoTransport createReaderFor audioFile s =
     s\<lparr>transportPlaying := False, transportInput := None, currentAudioFileSource := None,
       currentlyLoadedFile := audioFile\<rparr>"
  by (simp add: loadAudioFileIntoTransport_def)

lemma playSequence_nextStartTime:
  "nextStartTime (fst (playSequence rate theSequence s)) = getEndTime theSequence"
proof (cases "endOfSequence rate theSequence s")
  case True
  then show ?thesis by (simp add: playSequence_end)
next
  case False
  then show ?thesis by (simp add: playSequence_scan Let_def)
qed

lemma playSequence_moved:
  assumes "transportMoved rate 0 (nextStartTime s)"
  shows "\<exists>rest. snd (playSequence rate theSequence s) = safetyFlush @ rest"
proof -
  from assms have "\<not> endOfSequence rate theSequence s"
    by (simp add: endOfSequence_def)
  then show ?thesis
    using assms by (simp add: playSequence_scan Let_def)
qed

lemma forEvents_flag:
  "isPlayingSomething (fst (forEvents a e evs s)) =
     (isPlayingSomething s \<or> forwarded (snd (forEvents a e evs s)) \<noteq> [])"
  by (simp add: forEvents_state forEvents_trace)

lemma playSequence_flag:
  assumes "\<not> isPlayingSomething s"
    and "isPlayingSomething (fst (playSequence rate theSequence s))"
  shows "forwarded (snd (playSequence rate theSequence s)) \<noteq> []"
proof -
  from assms(1) have n: "\<not> endOfSequence rate theSequence s"
    by (simp add: endOfSequence_def)
  from assms show ?thesis
    by (simp add: playSequence_scan [OF n] Let_def split: if_splits)
qed

section \<open>The claims\<close>

text \<open>
  C1. In every block in which the lock is acquired, the track count is positive and the
  current track exists, the dispatcher forwards exactly the events of the current track
  whose time stamp lies in the half-open window from 0 (the window start) to the end time
  of the track, in the stored order of the track and nothing else; with a device attached
  exactly these reach the device. When an event was forwarded the sounding flag is true at
  block exit. A track stored in ascending time stamp order is forwarded in ascending order.
  On the end-of-timeline branch the window is empty, so the statement needs no assumption
  about the branch.
\<close>

theorem processBlock_forwards_window:
  assumes "isLocked b" and "numTracks s > 0"
    and "getTrack (MIDIFile s) (currentTrack s) = Some theSequence"
  shows "\<exists>s'. fst (processBlock b s) = Inr s'
           \<and> forwarded (snd (processBlock b s)) =
               map payload (filter (inWindow 0 (getEndTime theSequence)) (eventList theSequence))
           \<and> delivered (snd (processBlock b s)) =
               (if lumi s
                then map payload
                       (filter (inWindow 0 (getEndTime theSequence)) (eventList theSequence))
                else [])
           \<and> (filter (inWindow 0 (getEndTime theSequence)) (eventList theSequence) \<noteq> []
                \<longrightarrow> isPlayingSomething s')
           \<and> (sorted (map getTimeStamp (eventList theSequence)) \<longrightarrow>
                sorted (map getTimeStamp
                  (filter (inWindow 0 (getEndTime theSequence)) (eventList theSequence))))"
proof (cases "endOfSequence (sampleRate b) theSequence s")
  case True
  then have "scanned theSequence = []"
    by (simp add: endOfSequence_def scanned_end)
  then show ?thesis
    using processBlock_locked [OF assms] playSequence_end [OF True]
    by (simp add: scanned_def)
next
  case False
  show ?thesis
    using processBlock_locked [OF assms] playSequence_scan [OF False]
    by (simp add: scanned_def Let_def sorted_filter)
qed

theorem processBlock_forwards_window_witness:
  "isLocked exampleBlock \<and> numTracks exampleProcessor > 0
   \<and> getTrack (MIDIFile exampleProcessor) (currentTrack exampleProcessor) = Some exampleTrack
   \<and> forwarded (snd (processBlock exampleBlock exampleProcessor)) =
        [([0x90, 60, 100], 3), ([0x80, 60, 0], 3)]
   \<and> delivered (snd (processBlock exampleBlock exampleProcessor)) =
        [([0x90, 60, 100], 3), ([0x80, 60, 0], 3)]
   \<and> (\<exists>s'. fst (processBlock exampleBlock exampleProcessor) = Inr s' \<and> isPlayingSomething s')"
proof -
  have h1: "isLocked exampleBlock" by (simp add: exampleBlock_def)
  have h2: "numTracks exampleProcessor > 0" by (simp add: exampleProcessor_def)
  note h3 = getTrack_example
  have l: "lumi exampleProcessor" by (simp add: exampleProcessor_def)
  show ?thesis
    using processBlock_forwards_window [OF h1 h2 h3] h1 h2 h3 l scanned_example
    by (auto simp add: scanned_def payload_def)
qed

text \<open>
  C2. Every Safety Flush emits, for the channels 1 to 16 in this order, the three messages
  all-notes-off, all-sound-off, all-controllers-off in that order, 48 messages in all, each
  at sample position 0, and leaves the sounding flag false. The loop of the source is
  compared with the enumeration of the sixteen channels.
\<close>

theorem sendAllNotesOff_flush:
  "snd (sendAllNotesOff s) =
     concat (map (\<lambda>channel. [AddEvent (allNotesOff channel) 0, AddEvent (allSoundOff channel) 0,
                               AddEvent (allControllersOff channel) 0])
       [1, 2, 3, 4, 5, 6, 7, 8, 9, 10, 11, 12, 13, 14, 15, 16])
   \<and> length (snd (sendAllNotesOff s)) = 48
   \<and> fst (sendAllNotesOff s) = s\<lparr>isPlayingSomething := False\<rparr>
   \<and> \<not> isPlayingSomething (fst (sendAllNotesOff s))"
  by (simp add: sendAllNotesOff_def sendLoop_flush length_safetyFlush)
    (simp add: safetyFlush_def upto_rec1)

theorem sendAllNotesOff_flush_witness:
  "take 4 (snd (sendAllNotesOff playingProcessor)) =
     [AddEvent (allNotesOff 1) 0, AddEvent (allSoundOff 1) 0,
      AddEvent (allControllersOff 1) 0, AddEvent (allNotesOff 2) 0]
   \<and> last (snd (sendAllNotesOff playingProcessor)) = AddEvent (allControllersOff 16) 0
   \<and> isPlayingSomething playingProcessor
   \<and> \<not> isPlayingSomething (fst (sendAllNotesOff playingProcessor))"
  using sendAllNotesOff_flush [of playingProcessor]
  by (simp add: playingProcessor_def)

text \<open>
  C3. In a block whose try-lock fails: when the sounding flag was true at entry, the block
  emits after its prologue exactly one Safety Flush into the outgoing MIDI buffer and
  leaves with the flag false and everything else unchanged; when the flag was false, the
  block emits nothing after its prologue and changes nothing.
\<close>

theorem processBlock_lock_failed:
  assumes "\<not> isLocked b"
  shows "processBlock b s =
           (if isPlayingSomething s
            then (Inr (s\<lparr>isPlayingSomething := False\<rparr>), blockPrologue b @ safetyFlush)
            else (Inr s, blockPrologue b))"
  using assms by (simp add: processBlock_def sendAllNotesOff_def sendLoop_flush)

theorem processBlock_lock_failed_witness:
  "\<not> isLocked contendedBlock
   \<and> processBlock contendedBlock playingProcessor =
       (Inr (playingProcessor\<lparr>isPlayingSomething := False\<rparr>),
        [ClearChannel 0, ClearChannel 1, GetNextAudioBlock 512, TryLock False] @ safetyFlush)
   \<and> processBlock contendedBlock exampleProcessor =
       (Inr exampleProcessor,
        [ClearChannel 0, ClearChannel 1, GetNextAudioBlock 512, TryLock False])"
proof -
  have h: "\<not> isLocked contendedBlock" by (simp add: contendedBlock_def)
  have p: "isPlayingSomething playingProcessor" "\<not> isPlayingSomething exampleProcessor"
    by (simp_all add: playingProcessor_def exampleProcessor_def)
  show ?thesis
    using processBlock_lock_failed [OF h, of playingProcessor]
      processBlock_lock_failed [OF h, of exampleProcessor] h p
    by (simp add: blockPrologue_contended)
qed

text \<open>
  C4. In a block that reaches the scan path (lock acquired, positive track count, current
  track present, end-of-timeline branch not taken) with \<open>trackHasChanged\<close> set, the
  dispatcher clears \<open>trackHasChanged\<close> and emits a full Safety Flush before the first event
  of the track is forwarded: the trace is a part that forwards nothing, then the flush,
  then the forwarding calls for the events in the window. This holds for every timeline
  and track, also one whose first event has time stamp 0.
\<close>

theorem track_change_flushes_first:
  assumes "isLocked b" and "numTracks s > 0"
    and "getTrack (MIDIFile s) (currentTrack s) = Some theSequence"
    and "trackHasChanged s"
    and "\<not> endOfSequence (sampleRate b) theSequence s"
  shows "\<exists>s' before.
           processBlock b s =
             (Inr s',
              before @ safetyFlush
              @ concat (map (\<lambda>ev. lumiMIDIEvent s (getRawData ev) (length (getRawData ev)))
                  (filter (inWindow 0 (getEndTime theSequence)) (eventList theSequence))))
           \<and> forwarded before = [] \<and> delivered before = []
           \<and> \<not> trackHasChanged s'"
proof -
  let ?before = "blockPrologue b
    @ (if transportMoved (sampleRate b) 0 (nextStartTime s) then safetyFlush else [])"
  have "forwarded ?before = []" "delivered ?before = []"
    by simp_all
  then show ?thesis
    using assms(4) processBlock_locked [OF assms(1-3)] playSequence_scan [OF assms(5)]
    by (auto simp add: Let_def scanned_def)
qed

theorem track_change_flushes_first_witness:
  "isLocked exampleBlock \<and> numTracks switchedProcessor > 0
   \<and> getTrack (MIDIFile switchedProcessor) (currentTrack switchedProcessor)
       = Some exampleTrack
   \<and> trackHasChanged switchedProcessor
   \<and> \<not> endOfSequence (sampleRate exampleBlock) exampleTrack switchedProcessor
   \<and> getTimeStamp (hd (eventList exampleTrack)) = 0
   \<and> (\<exists>s' before.
         processBlock exampleBlock switchedProcessor =
           (Inr s', before @ safetyFlush @ exampleCalls)
         \<and> forwarded before = [] \<and> delivered before = [] \<and> \<not> trackHasChanged s')"
proof -
  have h1: "isLocked exampleBlock" by (simp add: exampleBlock_def)
  have h2: "numTracks switchedProcessor > 0" by (simp add: switchedProcessor_def)
  note h3 = getTrack_switched
  have h4: "trackHasChanged switchedProcessor" by (simp add: switchedProcessor_def)
  note h5 = not_end_example [of "sampleRate exampleBlock" switchedProcessor]
  have l: "lumi switchedProcessor" by (simp add: switchedProcessor_def)
  have z: "getTimeStamp (hd (eventList exampleTrack)) = 0" by (simp add: exampleTrack_def)
  have c: "concat (map (\<lambda>ev. lumiMIDIEvent switchedProcessor (getRawData ev)
      (length (getRawData ev)))
      (filter (inWindow 0 (getEndTime exampleTrack)) (eventList exampleTrack))) = exampleCalls"
    using calls_example [OF l] by (simp add: scanned_def)
  show ?thesis
    using track_change_flushes_first [OF h1 h2 h3 h4 h5] h1 h2 h3 h4 h5 z
    unfolding c by simp
qed

text \<open>
  C5, corrected. After a successful load the track count is the number of tracks parsed
  from the file, the current track index is 0 and \<open>trackHasChanged\<close> is false; the
  sounding flag and \<open>nextStartTime\<close> (the last window end) both keep their value from
  before the load. The source never assigns \<open>nextStartTime\<close> in \<^verbatim>\<open>loadMIDIFile\<close>, so it is
  not reset to 0.
\<close>

theorem loadMIDIFile_success:
  assumes "readFrom midiFile = (True, tracks)"
  shows "loadMIDIFile readFrom ticksToSeconds midiFile s =
           s\<lparr>MIDIFile := convertTimestampTicksToSeconds ticksToSeconds tracks,
             numTracks := int (length tracks), currentTrack := 0, trackHasChanged := False\<rparr>
         \<and> numTracks (loadMIDIFile readFrom ticksToSeconds midiFile s) = int (length tracks)
         \<and> length (MIDIFile (loadMIDIFile readFrom ticksToSeconds midiFile s)) = length tracks
         \<and> currentTrack (loadMIDIFile readFrom ticksToSeconds midiFile s) = 0
         \<and> \<not> trackHasChanged (loadMIDIFile readFrom ticksToSeconds midiFile s)
         \<and> isPlayingSomething (loadMIDIFile readFrom ticksToSeconds midiFile s)
             = isPlayingSomething s
         \<and> nextStartTime (loadMIDIFile readFrom ticksToSeconds midiFile s) = nextStartTime s"
  using assms by (simp add: loadMIDIFile_eq) (simp add: convertTimestampTicksToSeconds_def)

theorem loadMIDIFile_success_witness:
  "exampleReadFrom ''song.mid'' = (True, [ticksTrack])
   \<and> loadMIDIFile exampleReadFrom exampleTicksToSeconds ''song.mid'' switchedProcessor
       = playingProcessor"
proof -
  have h: "exampleReadFrom ''song.mid'' = (True, [ticksTrack])"
    by (simp add: exampleReadFrom_def)
  show ?thesis
    using loadMIDIFile_success [where readFrom = exampleReadFrom and midiFile = "''song.mid''"
        and tracks = "[ticksTrack]" and ticksToSeconds = exampleTicksToSeconds
        and s = switchedProcessor] h
    by (simp add: convert_example) (simp add: switchedProcessor_def playingProcessor_def)
qed

text \<open>
  The claim as stated fails: the example processor has recorded the window end 1.2 after
  one block, and a successful load leaves it at 1.2.
\<close>

theorem loadMIDIFile_window_end_counterexample:
  "fst (processBlock exampleBlock exampleProcessor) = Inr playingProcessor
   \<and> exampleReadFrom ''song.mid'' = (True, [ticksTrack])
   \<and> nextStartTime
        (loadMIDIFile exampleReadFrom exampleTicksToSeconds ''song.mid'' playingProcessor)
      = 1.2
   \<and> nextStartTime
        (loadMIDIFile exampleReadFrom exampleTicksToSeconds ''song.mid'' playingProcessor)
      \<noteq> 0"
  by (simp add: first_block loadMIDIFile_eq exampleReadFrom_def playingProcessor_def)

text \<open>
  C6, corrected. A failing load does not leave the prior state intact and is not reported.
  A failing load of a MIDI file replaces the timeline by the tracks the parser left
  (converted to seconds), sets the track count to their number, the current track index
  to 0 and \<open>trackHasChanged\<close> to false, and leaves everything else as it was: exactly what a
  successful load that yields the same tracks does, so the caller cannot tell the failure.
  A failing load of an audio file stops the transport, removes the installed source and
  the current file source, and records the requested file as the currently loaded file.
\<close>

theorem failed_load_replaces_state:
  assumes "readFrom midiFile = (False, left)"
    and "succeeding midiFile = (True, left)"
    and "createReaderFor audioFile = None"
  shows "loadMIDIFile readFrom ticksToSeconds midiFile s =
           s\<lparr>MIDIFile := convertTimestampTicksToSeconds ticksToSeconds left,
             numTracks := int (length left), currentTrack := 0, trackHasChanged := False\<rparr>
         \<and> loadMIDIFile readFrom ticksToSeconds midiFile s
             = loadMIDIFile succeeding ticksToSeconds midiFile s
         \<and> loadAudioFileIntoTransport createReaderFor audioFile s =
             s\<lparr>transportPlaying := False, transportInput := None,
               currentAudioFileSource := None, currentlyLoadedFile := audioFile\<rparr>"
  using assms by (simp add: loadMIDIFile_eq loadAudio_None)

theorem failed_load_replaces_state_witness:
  "exampleReadFrom ''missing.mid'' = (False, [])
   \<and> succeedingReadFrom ''missing.mid'' = (True, [])
   \<and> exampleCreateReaderFor ''notes.txt'' = None
   \<and> loadMIDIFile exampleReadFrom exampleTicksToSeconds ''missing.mid'' switchedProcessor =
       switchedProcessor\<lparr>MIDIFile := [], numTracks := 0, currentTrack := 0,
         trackHasChanged := False\<rparr>
   \<and> loadAudioFileIntoTransport exampleCreateReaderFor ''notes.txt'' installedProcessor =
       installedProcessor\<lparr>transportPlaying := False, transportInput := None,
         currentAudioFileSource := None, currentlyLoadedFile := ''notes.txt''\<rparr>"
proof -
  have h1: "exampleReadFrom ''missing.mid'' = (False, [])"
    by (simp add: exampleReadFrom_def)
  have h2: "succeedingReadFrom ''missing.mid'' = (True, [])"
    by (simp add: succeedingReadFrom_def)
  have h3: "exampleCreateReaderFor ''notes.txt'' = None"
    by (simp add: exampleCreateReaderFor_def)
  show ?thesis
    using failed_load_replaces_state [where readFrom = exampleReadFrom
        and midiFile = "''missing.mid''" and left = "[]" and succeeding = succeedingReadFrom
        and createReaderFor = exampleCreateReaderFor and audioFile = "''notes.txt''"
        and ticksToSeconds = exampleTicksToSeconds and s = switchedProcessor]
      failed_load_replaces_state [where readFrom = exampleReadFrom
        and midiFile = "''missing.mid''" and left = "[]" and succeeding = succeedingReadFrom
        and createReaderFor = exampleCreateReaderFor and audioFile = "''notes.txt''"
        and ticksToSeconds = exampleTicksToSeconds and s = installedProcessor]
      h1 h2 h3
    by (simp add: convertTimestampTicksToSeconds_def)
qed

text \<open>
  The claim as stated fails: a load of a missing MIDI file empties the timeline of the
  example processor, and a load of a file without a decoder removes the installed audio
  source.
\<close>

theorem failed_load_counterexample:
  "fst (exampleReadFrom ''missing.mid'') = False
   \<and> MIDIFile (loadMIDIFile exampleReadFrom exampleTicksToSeconds ''missing.mid''
        switchedProcessor) = []
   \<and> MIDIFile switchedProcessor = [exampleTrack]
   \<and> loadMIDIFile exampleReadFrom exampleTicksToSeconds ''missing.mid'' switchedProcessor
       \<noteq> switchedProcessor
   \<and> exampleCreateReaderFor ''notes.txt'' = None
   \<and> transportInput (loadAudioFileIntoTransport exampleCreateReaderFor ''notes.txt''
        installedProcessor) = None
   \<and> loadAudioFileIntoTransport exampleCreateReaderFor ''notes.txt'' installedProcessor
       \<noteq> installedProcessor"
proof -
  have m: "MIDIFile (loadMIDIFile exampleReadFrom exampleTicksToSeconds ''missing.mid''
        switchedProcessor) = []"
    by (simp add: loadMIDIFile_eq exampleReadFrom_def convertTimestampTicksToSeconds_def)
  have s: "MIDIFile switchedProcessor = [exampleTrack]"
    by (simp add: switchedProcessor_def)
  have n: "exampleCreateReaderFor ''notes.txt'' = None"
    by (simp add: exampleCreateReaderFor_def)
  have t: "transportInput (loadAudioFileIntoTransport exampleCreateReaderFor ''notes.txt''
        installedProcessor) = None"
    using n by (simp add: loadAudio_None)
  have i: "transportInput installedProcessor \<noteq> None"
    by (simp add: installedProcessor_def)
  from m s have "loadMIDIFile exampleReadFrom exampleTicksToSeconds ''missing.mid''
      switchedProcessor \<noteq> switchedProcessor"
    by auto
  moreover from t i have "loadAudioFileIntoTransport exampleCreateReaderFor ''notes.txt''
      installedProcessor \<noteq> installedProcessor"
    by auto
  moreover have "fst (exampleReadFrom ''missing.mid'') = False"
    by (simp add: exampleReadFrom_def)
  ultimately show ?thesis using m s n t by simp
qed

text \<open>
  C7, corrected. With the window start at the constant 0 and a positive sample rate, the
  check of line 142 is true exactly when \<open>nextStartTime\<close> exceeds the sample length the
  source computes, the double nearest to \<open>1 / sampleRate\<close>, and never when that quotient
  overflows. Every block that reaches the sequence records the end time of its track in
  \<open>nextStartTime\<close>; so in the next such block the check is true exactly when that end time
  exceeds the computed sample length, and then the Safety Flush of the check is emitted
  right after the prologue. It is true in particular for every sample rate above 1 Hz
  after a track that ends later than one second. At 44100 Hz the computed sample length
  is \<open>6692696262570359 / 2 ^ 68\<close>, a little more than \<open>1 / 44100\<close>: an end time equal to
  it does not make the check true, the next double does.
\<close>

theorem transport_check_fires:
  assumes "isLocked b" and "numTracks s > 0"
    and "getTrack (MIDIFile s) (currentTrack s) = Some theSequence"
    and "fst (processBlock b s) = Inr s'"
    and "isLocked b'" and "numTracks s' > 0"
    and "getTrack (MIDIFile s') (currentTrack s') = Some theSequence'"
    and "0 < sampleRate b'"
  shows "nextStartTime s' = getEndTime theSequence
         \<and> transportMoved (sampleRate b') 0 (nextStartTime s')
             = (case sampleLength (sampleRate b') of
                  Some l \<Rightarrow> l < getEndTime theSequence
                | None \<Rightarrow> False)
         \<and> (transportMoved (sampleRate b') 0 (nextStartTime s') \<longrightarrow>
              (\<exists>rest. snd (processBlock b' s') = blockPrologue b' @ safetyFlush @ rest))
         \<and> (\<forall>n. transportMoved (sampleRate b') 0 n
                  = (case sampleLength (sampleRate b') of Some l \<Rightarrow> l < n | None \<Rightarrow> False))
         \<and> (1 < sampleRate b' \<and> 1 < getEndTime theSequence \<longrightarrow>
              transportMoved (sampleRate b') 0 (nextStartTime s'))"
proof -
  from assms(4) have s': "s' = fst (playSequence (sampleRate b) theSequence s)"
    by (simp add: processBlock_locked [OF assms(1-3)])
  then have n: "nextStartTime s' = getEndTime theSequence"
    by (simp add: playSequence_nextStartTime)
  have m: "transportMoved (sampleRate b') 0 x
      = (case sampleLength (sampleRate b') of Some l \<Rightarrow> l < x | None \<Rightarrow> False)" for x
    using assms(8) by (rule transportMoved_zero)
  have f: "\<exists>rest. snd (processBlock b' s') = blockPrologue b' @ safetyFlush @ rest"
    if "transportMoved (sampleRate b') 0 (nextStartTime s')"
    using playSequence_moved [OF that, of theSequence']
    by (auto simp add: processBlock_locked [OF assms(5-7)])
  have l: "transportMoved (sampleRate b') 0 (nextStartTime s')"
    if "1 < sampleRate b'" and "1 < getEndTime theSequence"
    using that n by (simp add: transportMoved_long)
  from n m [of "getEndTime theSequence"] m f l show ?thesis
    by simp
qed

theorem transport_check_fires_witness:
  "isLocked exampleBlock \<and> numTracks exampleProcessor > 0
   \<and> getTrack (MIDIFile exampleProcessor) (currentTrack exampleProcessor) = Some exampleTrack
   \<and> fst (processBlock exampleBlock exampleProcessor) = Inr playingProcessor
   \<and> numTracks playingProcessor > 0
   \<and> getTrack (MIDIFile playingProcessor) (currentTrack playingProcessor) = Some exampleTrack
   \<and> 0 < sampleRate exampleBlock
   \<and> sampleLength (sampleRate exampleBlock) = Some (6692696262570359 / 2 ^ 68)
   \<and> nextStartTime playingProcessor = getEndTime exampleTrack
   \<and> transportMoved (sampleRate exampleBlock) 0 (nextStartTime playingProcessor)
   \<and> (\<exists>rest. snd (processBlock exampleBlock playingProcessor)
         = blockPrologue exampleBlock @ safetyFlush @ rest)
   \<and> transportMoved (sampleRate exampleBlock) 0 (6692696262570360 / 2 ^ 68)
   \<and> \<not> transportMoved (sampleRate exampleBlock) 0 (6692696262570359 / 2 ^ 68)
   \<and> \<not> transportMoved (sampleRate exampleBlock) 0 (nextStartTime exampleProcessor)
   \<and> numTracks shortProcessor > 0
   \<and> getTrack (MIDIFile shortProcessor) (currentTrack shortProcessor) = Some shortTrack
   \<and> fst (processBlock exampleBlock shortProcessor) = Inr shortProcessor
   \<and> nextStartTime shortProcessor = getEndTime shortTrack
   \<and> \<not> transportMoved (sampleRate exampleBlock) 0 (nextStartTime shortProcessor)
   \<and> snd (processBlock exampleBlock shortProcessor) = blockPrologue exampleBlock"
proof -
  have h1: "isLocked exampleBlock" by (simp add: exampleBlock_def)
  have h2: "numTracks exampleProcessor > 0" by (simp add: exampleProcessor_def)
  note h3 = getTrack_example
  have h4: "fst (processBlock exampleBlock exampleProcessor) = Inr playingProcessor"
    by (simp add: first_block)
  have h6: "numTracks playingProcessor > 0" by (simp add: playingProcessor_def)
  note h7 = getTrack_playing
  have h8: "0 < sampleRate exampleBlock" by (simp add: exampleBlock_def)
  have r: "sampleRate exampleBlock = 44100" by (simp add: exampleBlock_def)
  have l: "sampleLength (sampleRate exampleBlock) = Some (6692696262570359 / 2 ^ 68)"
    by (simp only: r sampleLength_44100)
  have e: "getEndTime exampleTrack = 12 / 10" by (simp add: exampleTrack_def)
  have z: "nextStartTime exampleProcessor = 0" by (simp add: exampleProcessor_def)
  have k2: "numTracks shortProcessor > 0" by (simp add: shortProcessor_def)
  note k3 = getTrack_short
  have k4: "fst (processBlock exampleBlock shortProcessor) = Inr shortProcessor"
    by (simp add: short_block)
  have ke: "getEndTime shortTrack = 6692696262570359 / 2 ^ 68"
    by (simp add: shortTrack_def)
  have p: "snd (processBlock exampleBlock shortProcessor) = blockPrologue exampleBlock"
    by (simp add: short_block)
  from transport_check_fires [OF h1 h2 h3 h4 h1 h6 h7 h8]
  have a: "nextStartTime playingProcessor = getEndTime exampleTrack"
    and b: "transportMoved (sampleRate exampleBlock) 0 (nextStartTime playingProcessor)"
    and c: "\<exists>rest. snd (processBlock exampleBlock playingProcessor)
         = blockPrologue exampleBlock @ safetyFlush @ rest"
    and d: "transportMoved (sampleRate exampleBlock) 0 n
         = (6692696262570359 / 2 ^ 68 < n)" for n
    unfolding l e by simp_all
  from transport_check_fires [OF h1 k2 k3 k4 h1 k2 k3 h8]
  have a': "nextStartTime shortProcessor = getEndTime shortTrack"
    and b': "\<not> transportMoved (sampleRate exampleBlock) 0 (nextStartTime shortProcessor)"
    unfolding l ke by simp_all
  have d1: "transportMoved (sampleRate exampleBlock) 0 (6692696262570360 / 2 ^ 68)"
    unfolding d by simp
  have d2: "\<not> transportMoved (sampleRate exampleBlock) 0 (6692696262570359 / 2 ^ 68)"
    unfolding d by simp
  have d3: "\<not> transportMoved (sampleRate exampleBlock) 0 (nextStartTime exampleProcessor)"
    unfolding d z by simp
  show ?thesis
    using h1 h2 h3 h4 h6 h7 h8 l a b c d1 d2 d3 k2 k3 k4 a' b' p by blast
qed

text \<open>
  The claim as stated fails: after one block over the example track the check is true in
  the second block, which starts with the flush.
\<close>

theorem transport_check_counterexample:
  "fst (processBlock exampleBlock exampleProcessor) = Inr playingProcessor
   \<and> transportMoved (sampleRate exampleBlock) 0 (nextStartTime playingProcessor)
   \<and> snd (processBlock exampleBlock playingProcessor)
       = blockPrologue exampleBlock @ safetyFlush @ exampleCalls"
  by (simp add: first_block second_block)
    (simp add: exampleBlock_def playingProcessor_def transportMoved_long)

text \<open>
  C8, corrected. For the timeline of one track with events at 0.0, 0.5 and 1.2 seconds and
  end time 1.2, a block forwards the two events at 0.0 and 0.5 in order (the event at 1.2
  is outside the half-open window) and leaves with the sounding flag true. The window
  start of the next block is 0 again: with a sample rate above 1 Hz that block emits a
  Safety Flush after its prologue and then forwards the same two events again.
\<close>

theorem example_two_blocks:
  assumes "MIDIFile s = [exampleTrack]" and "numTracks s = 1" and "currentTrack s = 0"
    and "isLocked b" and "isLocked b'" and "1 < sampleRate b'"
  shows "\<exists>s'. fst (processBlock b s) = Inr s'
           \<and> forwarded (snd (processBlock b s)) = [([0x90, 60, 100], 3), ([0x80, 60, 0], 3)]
           \<and> isPlayingSomething s'
           \<and> processBlock b' s' =
               (Inr s',
                blockPrologue b' @ safetyFlush
                @ lumiMIDIEvent s [0x90, 60, 100] 3 @ lumiMIDIEvent s [0x80, 60, 0] 3)
           \<and> forwarded (snd (processBlock b' s')) = [([0x90, 60, 100], 3), ([0x80, 60, 0], 3)]"
proof -
  let ?s' = "s\<lparr>trackHasChanged := False, isPlayingSomething := True,
    nextStartTime := getEndTime exampleTrack\<rparr>"
  have g: "getTrack (MIDIFile s) (currentTrack s) = Some exampleTrack"
    using assms(1,3) by (simp add: getTrack_def)
  have g': "getTrack (MIDIFile ?s') (currentTrack ?s') = Some exampleTrack"
    using assms(1,3) by (simp add: getTrack_def)
  have n: "numTracks s > 0" "numTracks ?s' > 0"
    using assms(2) by simp_all
  have e: "getEndTime exampleTrack = 1.2"
    by (simp add: exampleTrack_def)
  have p1: "playSequence (sampleRate b) exampleTrack s =
      (?s', (if transportMoved (sampleRate b) 0 (nextStartTime s) then safetyFlush else [])
            @ (if trackHasChanged s then safetyFlush else [])
            @ lumiMIDIEvent s [0x90, 60, 100] 3 @ lumiMIDIEvent s [0x80, 60, 0] 3)"
    by (simp add: playSequence_scan [OF not_end_example] scanned_example Let_def
        numeral_3_eq_3)
  have m: "transportMoved (sampleRate b') 0 (nextStartTime ?s')"
    using assms(6) by (simp add: transportMoved_long e)
  have p2: "playSequence (sampleRate b') exampleTrack ?s' =
      (?s', safetyFlush @ lumiMIDIEvent s [0x90, 60, 100] 3 @ lumiMIDIEvent s [0x80, 60, 0] 3)"
    using m
    by (simp add: playSequence_scan [OF not_end_example] scanned_example Let_def
        lumiMIDIEvent_def)
  have f: "forwarded (lumiMIDIEvent s [0x90, 60, 100] 3 @ lumiMIDIEvent s [0x80, 60, 0] 3)
      = [([0x90, 60, 100], 3), ([0x80, 60, 0], 3)]"
    by (simp add: lumiMIDIEvent_def)
  have b1: "processBlock b s = (Inr ?s', blockPrologue b @ snd (playSequence (sampleRate b) exampleTrack s))"
    using processBlock_locked [OF assms(4) n(1) g] by (simp add: p1)
  have b2: "processBlock b' ?s' = (Inr ?s', blockPrologue b' @ safetyFlush
      @ lumiMIDIEvent s [0x90, 60, 100] 3 @ lumiMIDIEvent s [0x80, 60, 0] 3)"
    using processBlock_locked [OF assms(5) n(2) g'] by (simp add: p2)
  have f1: "forwarded (snd (processBlock b s)) = [([0x90, 60, 100], 3), ([0x80, 60, 0], 3)]"
    unfolding b1 p1 using f by simp
  have f2: "forwarded (snd (processBlock b' ?s')) = [([0x90, 60, 100], 3), ([0x80, 60, 0], 3)]"
    unfolding b2 using f by simp
  show ?thesis
    using b1 b2 f1 f2 by (intro exI [of _ ?s']) simp
qed

theorem example_two_blocks_witness:
  "MIDIFile exampleProcessor = [exampleTrack] \<and> numTracks exampleProcessor = 1
   \<and> currentTrack exampleProcessor = 0 \<and> isLocked exampleBlock \<and> 1 < sampleRate exampleBlock
   \<and> (\<exists>s'. fst (processBlock exampleBlock exampleProcessor) = Inr s'
         \<and> isPlayingSomething s'
         \<and> snd (processBlock exampleBlock s') =
             [ClearChannel 0, ClearChannel 1, GetNextAudioBlock 512, TryLock True]
             @ safetyFlush
             @ [LumiMIDIEvent [0x90, 60, 100] 3, SendMessage [0x90, 60, 100] 3,
                LumiMIDIEvent [0x80, 60, 0] 3, SendMessage [0x80, 60, 0] 3])"
proof -
  have h1: "MIDIFile exampleProcessor = [exampleTrack]" by (simp add: exampleProcessor_def)
  have h2: "numTracks exampleProcessor = 1" by (simp add: exampleProcessor_def)
  have h3: "currentTrack exampleProcessor = 0" by (simp add: exampleProcessor_def)
  have h4: "isLocked exampleBlock" by (simp add: exampleBlock_def)
  have h6: "1 < sampleRate exampleBlock" by (simp add: exampleBlock_def)
  have l: "lumi exampleProcessor" by (simp add: exampleProcessor_def)
  from example_two_blocks [OF h1 h2 h3 h4 h4 h6]
  obtain s' where "fst (processBlock exampleBlock exampleProcessor) = Inr s'"
    and "isPlayingSomething s'"
    and "processBlock exampleBlock s' =
               (Inr s',
                blockPrologue exampleBlock @ safetyFlush
                @ lumiMIDIEvent exampleProcessor [0x90, 60, 100] 3
                @ lumiMIDIEvent exampleProcessor [0x80, 60, 0] 3)"
    by blast
  then have "fst (processBlock exampleBlock exampleProcessor) = Inr s'
         \<and> isPlayingSomething s'
         \<and> snd (processBlock exampleBlock s') =
             [ClearChannel 0, ClearChannel 1, GetNextAudioBlock 512, TryLock True]
             @ safetyFlush
             @ [LumiMIDIEvent [0x90, 60, 100] 3, SendMessage [0x90, 60, 100] 3,
                LumiMIDIEvent [0x80, 60, 0] 3, SendMessage [0x80, 60, 0] 3]"
    using l by (simp add: blockPrologue_example lumiMIDIEvent_def)
  then show ?thesis
    using h1 h2 h3 h4 h6 by blast
qed

text \<open>
  The claim as stated fails: the first block forwards two events, not the three of the
  track.
\<close>

theorem example_counterexample:
  "forwarded (snd (processBlock exampleBlock exampleProcessor))
     = [([0x90, 60, 100], 3), ([0x80, 60, 0], 3)]
   \<and> map payload (eventList exampleTrack)
       = [([0x90, 60, 100], 3), ([0x80, 60, 0], 3), ([0xFF, 0x2F, 0], 3)]
   \<and> forwarded (snd (processBlock exampleBlock exampleProcessor))
       \<noteq> map payload (eventList exampleTrack)"
  by (simp add: first_block exampleCalls_def exampleTrack_def payload_def)

text \<open>
  C9. Every call of \<^verbatim>\<open>processBlock\<close> pulls the next audio block, of the sample count of the
  buffer, exactly once: after clearing the surplus output channels, before the try-lock,
  and whatever the lock, the timeline and the MIDI state are. This includes the call that
  ends in the null sequence.
\<close>

theorem processBlock_pulls_audio_once:
  "\<exists>rest. snd (processBlock b s) =
            map ClearChannel [totalNumInputChannels b ..< totalNumOutputChannels b]
            @ [GetNextAudioBlock (numSamples b), TryLock (isLocked b)] @ rest
         \<and> (\<forall>n. GetNextAudioBlock n \<notin> set rest) \<and> (\<forall>l. TryLock l \<notin> set rest)"
proof -
  obtain rest where r: "snd (processBlock b s) = blockPrologue b @ rest"
    and m: "list_all midiOnly rest"
    using processBlock_prologue by blast
  have "\<not> midiOnly (GetNextAudioBlock n)" "\<not> midiOnly (TryLock l)" for n l
    by simp_all
  with m have "(\<forall>n. GetNextAudioBlock n \<notin> set rest) \<and> (\<forall>l. TryLock l \<notin> set rest)"
    by (auto simp add: list_all_iff)
  with r show ?thesis by (auto simp add: blockPrologue_def)
qed

theorem processBlock_pulls_audio_once_witness:
  "\<exists>rest. snd (processBlock contendedBlock exampleProcessor) =
            [ClearChannel 0, ClearChannel 1, GetNextAudioBlock 512, TryLock False] @ rest
         \<and> (\<forall>n. GetNextAudioBlock n \<notin> set rest)"
  using processBlock_pulls_audio_once [of contendedBlock exampleProcessor]
  by (auto simp add: contendedBlock_def upt_rec)

text \<open>
  C10. When the sounding flag is false at block entry and true at block exit, the block has
  forwarded at least one event. No other operation sets the flag: \<^verbatim>\<open>sendAllNotesOff\<close> clears
  it, the scan loop leaves it true exactly when it was true before or the loop forwarded an
  event, and the two loaders keep it.
\<close>

theorem flag_set_only_by_forwarding:
  assumes "fst (processBlock b s) = Inr s'"
    and "\<not> isPlayingSomething s" and "isPlayingSomething s'"
  shows "forwarded (snd (processBlock b s)) \<noteq> []
         \<and> \<not> isPlayingSomething (fst (sendAllNotesOff s0))
         \<and> isPlayingSomething (fst (forEvents startTime endTime evs s0)) =
             (isPlayingSomething s0 \<or> forwarded (snd (forEvents startTime endTime evs s0)) \<noteq> [])
         \<and> isPlayingSomething (loadMIDIFile readFrom ticksToSeconds midiFile s0)
             = isPlayingSomething s0
         \<and> isPlayingSomething (loadAudioFileIntoTransport createReaderFor audioFile s0)
             = isPlayingSomething s0"
proof -
  have "forwarded (snd (processBlock b s)) \<noteq> []"
  proof (cases "isLocked b \<and> numTracks s > 0")
    case True
    show ?thesis
    proof (cases "getTrack (MIDIFile s) (currentTrack s)")
      case None
      with True assms(1) show ?thesis by (simp add: processBlock_def)
    next
      case (Some theSequence)
      with True have p: "processBlock b s =
          (Inr (fst (playSequence (sampleRate b) theSequence s)),
           blockPrologue b @ snd (playSequence (sampleRate b) theSequence s))"
        by (simp add: processBlock_locked)
      with assms(1) have "s' = fst (playSequence (sampleRate b) theSequence s)"
        by simp
      with assms(2,3) have "forwarded (snd (playSequence (sampleRate b) theSequence s)) \<noteq> []"
        by (simp add: playSequence_flag)
      with p show ?thesis by simp
    qed
  next
    case False
    with assms show ?thesis
      by (auto simp add: processBlock_def split: if_splits)
  qed
  moreover have "isPlayingSomething (loadAudioFileIntoTransport createReaderFor audioFile s0)
      = isPlayingSomething s0"
    by (simp add: loadAudioFileIntoTransport_def Let_def split: option.splits)
  ultimately show ?thesis
    by (simp add: sendAllNotesOff_def forEvents_flag loadMIDIFile_eq)
qed

theorem flag_set_only_by_forwarding_witness:
  "fst (processBlock exampleBlock exampleProcessor) = Inr playingProcessor
   \<and> \<not> isPlayingSomething exampleProcessor \<and> isPlayingSomething playingProcessor
   \<and> forwarded (snd (processBlock exampleBlock exampleProcessor)) \<noteq> []"
proof -
  have h1: "fst (processBlock exampleBlock exampleProcessor) = Inr playingProcessor"
    by (simp add: first_block)
  have h2: "\<not> isPlayingSomething exampleProcessor" by (simp add: exampleProcessor_def)
  have h3: "isPlayingSomething playingProcessor" by (simp add: playingProcessor_def)
  show ?thesis
    using flag_set_only_by_forwarding [OF h1 h2 h3] h1 h2 h3 by simp
qed

end
